theory Spec2Isabelle
  imports Main
begin

section \<open>Data model: the interfaces of App.tsx\<close>

text \<open>
  The TypeScript interfaces become records. A \<open>number\<close> field that carries an identifier,
  a status code or a page number is an \<open>int\<close>; a \<open>string | null\<close> field is a
  \<open>string option\<close>; an optional field (\<open>hadithArabic?\<close>) is an option as well.
  JavaScript strings are modelled as \<open>string\<close>, one \<open>char\<close> per code unit, so the model
  covers the strings whose code units lie below 256.
  The field \<open>id\<close> of the three entities is written \<open>book_id\<close>, \<open>chapter_id\<close>,
  \<open>hadith_id\<close>, because \<open>id\<close> is the identity function of HOL. The embedded \<open>book\<close>
  and \<open>chapter\<close> of a hadith are prefixed, and \<open>from\<close>, \<open>to\<close> and \<open>total\<close> of the page
  envelope are suffixed: they are keywords of the theory language or constants of HOL.
\<close>

text \<open>The fields that \<open>Book\<close> and the book embedded in a \<open>Hadith\<close> have in common.\<close>

record BookSummary =
  book_id :: int
  bookName :: string
  writerName :: string
  writerDeath :: "string option"
  bookSlug :: string

record Book = BookSummary +
  hadiths_count :: string
  chapters_count :: string

record Chapter =
  chapter_id :: int
  chapterNumber :: string
  chapterEnglish :: string
  chapterUrdu :: string
  chapterArabic :: string
  chapter_bookSlug :: string

record Hadith =
  hadith_id :: int
  hadithNumber :: string
  englishNarrator :: string
  hadithEnglish :: string
  hadithUrdu :: string
  hadithArabic :: "string option"
  headingArabic :: "string option"
  headingUrdu :: "string option"
  headingEnglish :: "string option"
  chapterId :: string
  hadith_bookSlug :: string
  volume :: string
  hadith_status :: string
  hadith_book :: BookSummary
  hadith_chapter :: Chapter

text \<open>
  The \<open>data\<close> field of the page envelope is declared \<open>Hadith[]\<close>, but the loader tests it
  with \<open>Array.isArray\<close> at run time, so the model keeps both cases: an array of hadiths, or
  any other JSON value (null, an object, a string, a number, or the field missing).
\<close>

datatype data_field = ArrayData "Hadith list" | NonArrayData

text \<open>One entry of \<open>links: any[]\<close>, as the API sends it.\<close>

record PageLink =
  url :: "string option"
  label :: string
  active :: bool

text \<open>\<open>HadithApiResponse['hadiths']\<close>, the page envelope.\<close>

record HadithPage =
  current_page :: int
  data :: data_field
  first_page_url :: string
  from_item :: int
  last_page :: int
  last_page_url :: string
  links :: "PageLink list"
  next_page_url :: "string option"
  path :: string
  per_page :: int
  prev_page_url :: "string option"
  to_item :: int
  total_items :: int

text \<open>
  The three API responses share \<open>status\<close> and \<open>message\<close>. The loaders test
  \<open>data.chapters\<close> and \<open>data.hadiths\<close> for presence, so these two payloads are options
  (\<open>None\<close>: the field is missing or null); \<open>data.books\<close> is used untested, as declared.
\<close>

record ApiResponse =
  status :: int
  message :: string

record BookApiResponse = ApiResponse +
  resp_books :: "Book list"

record ChapterApiResponse = ApiResponse +
  resp_chapters :: "Chapter list option"

record HadithApiResponse = ApiResponse +
  resp_hadiths :: "HadithPage option"

section \<open>The component state\<close>

text \<open>The eleven \<open>useState\<close> cells of \<open>HadithApp\<close>, with their initial values.\<close>

record State =
  books :: "Book list"
  selectedBook :: "Book option"
  chapters :: "Chapter list"
  selectedChapter :: "Chapter option"
  hadithsData :: "HadithPage option"
  currentPage :: int
  loadingBooks :: bool
  loadingChapters :: bool
  loadingHadiths :: bool
  error :: "string option"
  isSidebarOpen :: bool

definition initialState :: State where
  "initialState =
     \<lparr>books = [], selectedBook = None, chapters = [], selectedChapter = None,
      hadithsData = None, currentPage = 1, loadingBooks = True, loadingChapters = False,
      loadingHadiths = False, error = None, isSidebarOpen = False\<rparr>"

section \<open>Handlers\<close>

definition handleBookSelect :: "Book \<Rightarrow> State \<Rightarrow> State" where
  "handleBookSelect b s =
     s\<lparr>selectedBook := Some b, selectedChapter := None, currentPage := 1,
       hadithsData := None, isSidebarOpen := False\<rparr>"

definition handleChapterSelect :: "Chapter \<Rightarrow> State \<Rightarrow> State" where
  "handleChapterSelect c s =
     s\<lparr>selectedChapter := Some c, currentPage := 1, hadithsData := None\<rparr>"

text \<open>
  \<open>!hadithsData\<close> holds exactly when the cell is null: an envelope is an object, and every
  object is truthy.
\<close>

definition handlePageChange :: "int \<Rightarrow> State \<Rightarrow> State" where
  "handlePageChange page s =
     (if 0 < page \<and> (case hadithsData s of None \<Rightarrow> True | Some h \<Rightarrow> page \<le> last_page h)
      then s\<lparr>currentPage := page\<rparr>
      else s)"

text \<open>The sidebar toggle of the top bar: \<open>setIsSidebarOpen(!isSidebarOpen)\<close>.\<close>

definition toggleSidebar :: "State \<Rightarrow> State" where
  "toggleSidebar s = s\<lparr>isSidebarOpen := \<not> isSidebarOpen s\<rparr>"

section \<open>The built-in \<open>parseInt\<close>\<close>

text \<open>
  \<open>parseInt(string)\<close> with no radix, after ECMA-262: skip leading white space, read an
  optional sign, switch to radix 16 after a prefix \<open>0x\<close> or \<open>0X\<close>, take the longest run
  of digits of the radix, and return NaN when that run is empty. \<open>None\<close> stands for NaN.
  The result is the mathematical integer; the source only compares it with zero, and
  rounding to a double changes neither the sign nor whether the value is zero.
\<close>

text \<open>White space and line terminators among the code units below 256.\<close>

definition isWhiteSpace :: "char \<Rightarrow> bool" where
  "isWhiteSpace c \<longleftrightarrow>
     c = CHR 0x09 \<or> c = CHR 0x0A \<or> c = CHR 0x0B \<or> c = CHR 0x0C \<or> c = CHR 0x0D \<or>
     c = CHR 0x20 \<or> c = CHR 0xA0"

definition digitValue :: "char \<Rightarrow> nat option" where
  "digitValue c =
     (let n = (of_char c :: nat) in
      if 48 \<le> n \<and> n \<le> 57 then Some (n - 48)
      else if 97 \<le> n \<and> n \<le> 122 then Some (n - 87)
      else if 65 \<le> n \<and> n \<le> 90 then Some (n - 55)
      else None)"

definition isRadixDigit :: "nat \<Rightarrow> char \<Rightarrow> bool" where
  "isRadixDigit R c = (case digitValue c of None \<Rightarrow> False | Some d \<Rightarrow> d < R)"

definition mathInt :: "nat \<Rightarrow> string \<Rightarrow> int" where
  "mathInt R Z = foldl (\<lambda>acc c. acc * int R + int (case_option 0 id (digitValue c))) 0 Z"

definition parseInt :: "string \<Rightarrow> int option" where
  "parseInt inputString =
     (let S = dropWhile isWhiteSpace inputString;
          sign = (if S \<noteq> [] \<and> hd S = CHR ''-'' then - 1 else 1 :: int);
          S1 = (if S \<noteq> [] \<and> (hd S = CHR ''+'' \<or> hd S = CHR ''-'') then tl S else S);
          hex = (2 \<le> length S1 \<and> (take 2 S1 = ''0x'' \<or> take 2 S1 = ''0X''));
          R = (if hex then 16 else 10);
          S2 = (if hex then drop 2 S1 else S1);
          Z = takeWhile (isRadixDigit R) S2
      in if Z = [] then None else Some (sign * mathInt R Z))"

text \<open>\<open>x > 0\<close> on a number that may be NaN: every comparison with NaN is false.\<close>

definition gt_zero :: "int option \<Rightarrow> bool" where
  "gt_zero x = (case x of None \<Rightarrow> False | Some n \<Rightarrow> 0 < n)"

section \<open>Requests and what they settle with\<close>

text \<open>
  A value thrown inside \<open>try\<close>: an \<open>Error\<close> with its message, or any other value. Each
  \<open>catch\<close> block publishes \<open>err.message\<close> for the first and a fixed text for the second.
\<close>

datatype thrown = Error string | NonError

definition catch_message :: "thrown \<Rightarrow> string" where
  "catch_message err = (case err of Error m \<Rightarrow> m | NonError \<Rightarrow> ''An unknown error occurred'')"

text \<open>
  The ways one request can end: \<open>fetch\<close> rejects, the response is not \<open>ok\<close> (with its
  HTTP status), \<open>response.json()\<close> rejects, or the JSON body arrives.
\<close>

datatype 'd outcome = FetchRejected thrown | HttpNotOk nat | JsonRejected thrown | Json 'd

text \<open>The decimal digits of a number, as a template literal prints \<open>response.status\<close>.\<close>

fun string_of_nat :: "nat \<Rightarrow> string" where
  "string_of_nat n =
     (if n < 10 then [char_of (48 + n)]
      else string_of_nat (n div 10) @ [char_of (48 + n mod 10)])"

declare string_of_nat.simps [simp del]

text \<open>\<open>data.message || fallback\<close>: the empty string is falsy.\<close>

definition message_or :: "string \<Rightarrow> string \<Rightarrow> string" where
  "message_or m fallback = (if m \<noteq> [] then m else fallback)"

text \<open>
  What the \<open>try\<close> block of a loader has in common before it looks at the body: the throws
  of \<open>fetch\<close>, of the \<open>response.ok\<close> test and of \<open>response.json()\<close>. A loader body
  returns \<open>Inl\<close> of the thrown value, or \<open>Inr\<close> of the state it has published.
\<close>

definition await_json :: "'d outcome \<Rightarrow> ('d \<Rightarrow> thrown + State) \<Rightarrow> thrown + State" where
  "await_json r k =
     (case r of
        FetchRejected e \<Rightarrow> Inl e
      | HttpNotOk st \<Rightarrow> Inl (Error (''HTTP error! status: '' @ string_of_nat st))
      | JsonRejected e \<Rightarrow> Inl e
      | Json d \<Rightarrow> k d)"

section \<open>The book list loader\<close>

text \<open>
  Each loader is split at its first \<open>await\<close>: the part that runs when the request starts,
  and the part that runs when the request settles, on the state of that moment.
\<close>

definition fetchBooks_start :: "State \<Rightarrow> State" where
  "fetchBooks_start s = s\<lparr>loadingBooks := True, error := None\<rparr>"

definition fetchBooks_try :: "BookApiResponse outcome \<Rightarrow> State \<Rightarrow> thrown + State" where
  "fetchBooks_try r s =
     await_json r (\<lambda>d.
       if status d = 200
       then Inr (s\<lparr>books := filter (\<lambda>book. gt_zero (parseInt (hadiths_count book))) (resp_books d)\<rparr>)
       else Inl (Error (message_or (message d) ''Failed to fetch books'')))"

definition fetchBooks_settle :: "BookApiResponse outcome \<Rightarrow> State \<Rightarrow> State" where
  "fetchBooks_settle r s =
     (case fetchBooks_try r s of
        Inl err \<Rightarrow> s\<lparr>error := Some (catch_message err)\<rparr>
      | Inr s' \<Rightarrow> s')\<lparr>loadingBooks := False\<rparr>"

section \<open>The chapter list loader\<close>

definition fetchChapters_start :: "State \<Rightarrow> State" where
  "fetchChapters_start s =
     s\<lparr>loadingChapters := True, chapters := [], selectedChapter := None,
       hadithsData := None, error := None\<rparr>"

text \<open>The effect on \<open>selectedBook\<close>: no book clears the dependent cells and sends nothing.\<close>

definition fetchChapters_effect :: "State \<Rightarrow> State" where
  "fetchChapters_effect s =
     (case selectedBook s of
        None \<Rightarrow> s\<lparr>chapters := [], selectedChapter := None, hadithsData := None\<rparr>
      | Some b \<Rightarrow> fetchChapters_start s)"

text \<open>
  The book is the one the effect closed over. \<open>data.chapters\<close> is truthy when the list is
  present, also when it is empty: an empty array is an object.
\<close>

definition fetchChapters_try ::
  "Book \<Rightarrow> ChapterApiResponse outcome \<Rightarrow> State \<Rightarrow> thrown + State" where
  "fetchChapters_try b r s =
     await_json r (\<lambda>d.
       case (status d = 200, resp_chapters d) of
         (True, Some cs) \<Rightarrow> Inr (s\<lparr>chapters := cs\<rparr>)
       | _ \<Rightarrow>
          if status d = 404 \<or> resp_chapters d = None
          then Inr (s\<lparr>error := Some (''No chapters found for '' @ bookName b @ ''.''),
                      chapters := []\<rparr>)
          else Inl (Error (message_or (message d) ''Failed to fetch chapters'')))"

definition fetchChapters_settle :: "Book \<Rightarrow> ChapterApiResponse outcome \<Rightarrow> State \<Rightarrow> State" where
  "fetchChapters_settle b r s =
     (case fetchChapters_try b r s of
        Inl err \<Rightarrow> s\<lparr>error := Some (catch_message err)\<rparr>
      | Inr s' \<Rightarrow> s')\<lparr>loadingChapters := False\<rparr>"

section \<open>The hadith page loader\<close>

text \<open>\<open>fetchHadiths\<close> up to its first \<open>await\<close>: without a book and a chapter it only clears the page.\<close>

definition fetchHadiths_start :: "State \<Rightarrow> State" where
  "fetchHadiths_start s =
     (if selectedBook s = None \<or> selectedChapter s = None
      then s\<lparr>hadithsData := None\<rparr>
      else s\<lparr>loadingHadiths := True, error := None\<rparr>)"

definition fetchHadiths_try ::
  "Book \<Rightarrow> Chapter \<Rightarrow> HadithApiResponse outcome \<Rightarrow> State \<Rightarrow> thrown + State" where
  "fetchHadiths_try b c r s =
     await_json r (\<lambda>d.
       case (status d = 200, resp_hadiths d) of
         (True, Some h) \<Rightarrow>
           (case data h of
              ArrayData hs \<Rightarrow> Inr (s\<lparr>hadithsData := Some h\<rparr>)
            | NonArrayData \<Rightarrow>
                Inr (s\<lparr>hadithsData := Some (h\<lparr>data := ArrayData []\<rparr>),
                       error := Some ''No hadiths found for this chapter or page.''\<rparr>))
       | _ \<Rightarrow>
           Inr (s\<lparr>hadithsData := None,
                  error := Some (message_or (message d)
                            (''No hadiths found for Chapter '' @ chapterNumber c @ ''.''))\<rparr>))"

definition fetchHadiths_settle ::
  "Book \<Rightarrow> Chapter \<Rightarrow> HadithApiResponse outcome \<Rightarrow> State \<Rightarrow> State" where
  "fetchHadiths_settle b c r s =
     (case fetchHadiths_try b c r s of
        Inl err \<Rightarrow> s\<lparr>error := Some (catch_message err), hadithsData := None\<rparr>
      | Inr s' \<Rightarrow> s')\<lparr>loadingHadiths := False\<rparr>"

section \<open>Runs of the component\<close>

text \<open>
  Everything that changes the state: the three handlers, the sidebar toggle, and the start
  and the settlement of each loader. A settlement carries what its request closed over
  (the book, the chapter) and the outcome of the request.
\<close>

datatype event =
    BookSelect Book
  | ChapterSelect Chapter
  | PageChange int
  | ToggleSidebar
  | BooksStart
  | BooksSettle "BookApiResponse outcome"
  | ChaptersEffect
  | ChaptersSettle Book "ChapterApiResponse outcome"
  | HadithsStart
  | HadithsSettle Book Chapter "HadithApiResponse outcome"

fun apply_event :: "event \<Rightarrow> State \<Rightarrow> State" where
  "apply_event (BookSelect b) s = handleBookSelect b s"
| "apply_event (ChapterSelect c) s = handleChapterSelect c s"
| "apply_event (PageChange p) s = handlePageChange p s"
| "apply_event ToggleSidebar s = toggleSidebar s"
| "apply_event BooksStart s = fetchBooks_start s"
| "apply_event (BooksSettle r) s = fetchBooks_settle r s"
| "apply_event ChaptersEffect s = fetchChapters_effect s"
| "apply_event (ChaptersSettle b r) s = fetchChapters_settle b r s"
| "apply_event HadithsStart s = fetchHadiths_start s"
| "apply_event (HadithsSettle b c r) s = fetchHadiths_settle b c r s"

fun run :: "event list \<Rightarrow> State \<Rightarrow> State" where
  "run [] s = s"
| "run (e # es) s = run es (apply_event e s)"

section \<open>Sample data\<close>

text \<open>Concrete books, chapters, pages and responses, on which the theorems below are run.\<close>

definition sampleBook :: "int \<Rightarrow> string \<Rightarrow> string \<Rightarrow> Book" where
  "sampleBook i name cnt =
     \<lparr>book_id = i, bookName = name, writerName = ''Imam'', writerDeath = None,
      bookSlug = ''slug'', hadiths_count = cnt, chapters_count = ''2''\<rparr>"

definition sampleCatalog :: BookApiResponse where
  "sampleCatalog =
     \<lparr>status = 200, message = ''Books found'',
      resp_books = [sampleBook 1 ''Empty'' ''0'', sampleBook 2 ''Sahih'' ''50'',
                    sampleBook 3 ''Blank'' '''', sampleBook 4 ''Letters'' ''abc'']\<rparr>"

definition sampleChapter :: "int \<Rightarrow> string \<Rightarrow> Chapter" where
  "sampleChapter i num =
     \<lparr>chapter_id = i, chapterNumber = num, chapterEnglish = ''Revelation'',
      chapterUrdu = '''', chapterArabic = '''', chapter_bookSlug = ''slug''\<rparr>"

definition sampleHadith :: Hadith where
  "sampleHadith =
     \<lparr>hadith_id = 1, hadithNumber = ''1'', englishNarrator = ''Narrator'',
      hadithEnglish = ''Body'', hadithUrdu = '''', hadithArabic = None,
      headingArabic = None, headingUrdu = None, headingEnglish = None,
      chapterId = ''1'', hadith_bookSlug = ''slug'', volume = ''1'', hadith_status = ''Sahih'',
      hadith_book = \<lparr>book_id = 2, bookName = ''Sahih'', writerName = ''Imam'',
                      writerDeath = None, bookSlug = ''slug''\<rparr>,
      hadith_chapter = sampleChapter 1 ''1''\<rparr>"

text \<open>A page envelope with the given current page, last page and \<open>data\<close> field.\<close>

definition samplePage :: "int \<Rightarrow> int \<Rightarrow> data_field \<Rightarrow> HadithPage" where
  "samplePage cur lst d =
     \<lparr>current_page = cur, data = d, first_page_url = '''', from_item = 1, last_page = lst,
      last_page_url = '''', links = [], next_page_url = None, path = '''', per_page = 25,
      prev_page_url = None, to_item = 1, total_items = 1\<rparr>"

definition sampleHadithsResponse :: "int \<Rightarrow> int \<Rightarrow> data_field \<Rightarrow> HadithApiResponse" where
  "sampleHadithsResponse cur lst d =
     \<lparr>status = 200, message = ''Hadiths found'', resp_hadiths = Some (samplePage cur lst d)\<rparr>"

definition sampleNoChapters :: ChapterApiResponse where
  "sampleNoChapters = \<lparr>status = 200, message = ''Chapters found'', resp_chapters = Some []\<rparr>"

definition sampleNotFound :: ChapterApiResponse where
  "sampleNotFound = \<lparr>status = 404, message = ''Not found'', resp_chapters = None\<rparr>"

definition sampleChapters :: ChapterApiResponse where
  "sampleChapters =
     \<lparr>status = 200, message = ''Chapters found'',
      resp_chapters = Some [sampleChapter 1 ''1'', sampleChapter 2 ''2'']\<rparr>"

text \<open>
  A session from the mounting of the component on: the catalog arrives, the user selects
  the book and chapter 1, reads the pages 1 and 2, and asks for page 3, whose response has
  a \<open>data\<close> field that is not an array; the user then opens the sidebar.
\<close>

definition sampleRun :: "event list" where
  "sampleRun =
     [BooksStart,
      BooksSettle (Json sampleCatalog),
      BookSelect (sampleBook 2 ''Sahih'' ''50''),
      ChaptersEffect,
      HadithsStart,
      ChaptersSettle (sampleBook 2 ''Sahih'' ''50'') (Json sampleChapters),
      ChapterSelect (sampleChapter 1 ''1''),
      HadithsStart,
      HadithsSettle (sampleBook 2 ''Sahih'' ''50'') (sampleChapter 1 ''1'')
        (Json (sampleHadithsResponse 1 3 (ArrayData [sampleHadith]))),
      PageChange 2,
      HadithsStart,
      HadithsSettle (sampleBook 2 ''Sahih'' ''50'') (sampleChapter 1 ''1'')
        (Json (sampleHadithsResponse 2 3 (ArrayData [sampleHadith]))),
      PageChange 3,
      HadithsStart,
      HadithsSettle (sampleBook 2 ''Sahih'' ''50'') (sampleChapter 1 ''1'')
        (Json (sampleHadithsResponse 3 3 NonArrayData)),
      ToggleSidebar]"

text \<open>
  The state that session ends in: page 3 of 3 with an emptied envelope, the advisory error,
  the sidebar open.
\<close>

definition sampleState :: State where
  "sampleState =
     \<lparr>books = [sampleBook 2 ''Sahih'' ''50''],
      selectedBook = Some (sampleBook 2 ''Sahih'' ''50''),
      chapters = [sampleChapter 1 ''1'', sampleChapter 2 ''2''],
      selectedChapter = Some (sampleChapter 1 ''1''),
      hadithsData = Some (samplePage 3 3 (ArrayData [])),
      currentPage = 3, loadingBooks = False, loadingChapters = False,
      loadingHadiths = False, error = Some ''No hadiths found for this chapter or page.'',
      isSidebarOpen = True\<rparr>"

text \<open>
  A run in which a request is overtaken. Chapter 1 has three pages, chapter 2 has one.
  The user opens chapter 1, goes back to the chapter list by selecting the book again, and
  opens chapter 2 before the page of chapter 1 has arrived. That page then settles and is
  shown with its pagination; the user asks for page 2, which the envelope on display allows;
  then the page of chapter 2 settles. Only handlers and settlements of the hadith loader
  occur; the loader starts in between touch the loading flag and the error only.
\<close>

definition staleRun :: "event list" where
  "staleRun =
     [BookSelect (sampleBook 2 ''Sahih'' ''50''),
      ChapterSelect (sampleChapter 1 ''1''),
      BookSelect (sampleBook 2 ''Sahih'' ''50''),
      ChapterSelect (sampleChapter 2 ''2''),
      HadithsSettle (sampleBook 2 ''Sahih'' ''50'') (sampleChapter 1 ''1'')
        (Json (sampleHadithsResponse 1 3 (ArrayData [sampleHadith]))),
      PageChange 2,
      HadithsSettle (sampleBook 2 ''Sahih'' ''50'') (sampleChapter 2 ''2'')
        (Json (sampleHadithsResponse 1 1 (ArrayData [sampleHadith])))]"

section \<open>Auxiliary facts\<close>

lemmas parseInt_eval =
  parseInt_def isWhiteSpace_def isRadixDigit_def digitValue_def mathInt_def Let_def

lemmas settle_eval =
  fetchBooks_settle_def fetchBooks_try_def fetchChapters_settle_def fetchChapters_try_def
  fetchHadiths_settle_def fetchHadiths_try_def await_json_def

lemma books_fetchBooks_settle_ok:
  "status d = 200 \<Longrightarrow>
   books (fetchBooks_settle (Json d) s) =
     filter (\<lambda>book. gt_zero (parseInt (hadiths_count book))) (resp_books d)"
  by (simp add: settle_eval)

lemma gt_zero_iff: "gt_zero x \<longleftrightarrow> (\<exists>n. x = Some n \<and> 0 < n)"
  by (cases x) (simp_all add: gt_zero_def)

lemma parseInt_samples:
  "parseInt ''50'' = Some 50" "parseInt ''0'' = Some 0"
  "parseInt '''' = None" "parseInt ''abc'' = None"
  by (simp_all add: parseInt_eval)

lemma currentPage_fetchBooks_settle: "currentPage (fetchBooks_settle r s) = currentPage s"
  by (cases r) (simp_all add: settle_eval)

lemma currentPage_fetchChapters_settle:
  "currentPage (fetchChapters_settle b r s) = currentPage s"
  by (cases r) (simp_all add: settle_eval split: option.splits bool.splits)

lemma currentPage_fetchHadiths_settle:
  "currentPage (fetchHadiths_settle b c r s) = currentPage s"
  by (cases r) (simp_all add: settle_eval split: option.splits bool.splits data_field.splits)

lemma currentPage_apply_event: "1 \<le> currentPage s \<Longrightarrow> 1 \<le> currentPage (apply_event e s)"
  by (cases e)
    (simp_all add: handleBookSelect_def handleChapterSelect_def handlePageChange_def
      toggleSidebar_def fetchBooks_start_def fetchChapters_effect_def fetchChapters_start_def
      fetchHadiths_start_def currentPage_fetchBooks_settle currentPage_fetchChapters_settle
      currentPage_fetchHadiths_settle split: option.splits)

lemma currentPage_run: "1 \<le> currentPage s \<Longrightarrow> 1 \<le> currentPage (run evs s)"
  by (induction evs arbitrary: s) (simp_all add: currentPage_apply_event)

lemma handlePageChange_above_last:
  "hadithsData s = Some h \<Longrightarrow> last_page h < p \<Longrightarrow> handlePageChange p s = s"
  by (simp add: handlePageChange_def)

lemma sampleState_reachable: "run sampleRun initialState = sampleState"
  by (simp add: sampleRun_def sampleState_def initialState_def handleBookSelect_def
      handleChapterSelect_def handlePageChange_def toggleSidebar_def fetchBooks_start_def
      fetchChapters_effect_def fetchChapters_start_def fetchHadiths_start_def settle_eval
      sampleCatalog_def sampleChapters_def sampleHadithsResponse_def samplePage_def
      sampleBook_def parseInt_samples gt_zero_def)

lemma staleRun_result:
  "currentPage (run staleRun initialState) = 2"
  "hadithsData (run staleRun initialState) = Some (samplePage 1 1 (ArrayData [sampleHadith]))"
  by (simp_all add: staleRun_def initialState_def handleBookSelect_def handleChapterSelect_def
      handlePageChange_def settle_eval sampleHadithsResponse_def samplePage_def)

section \<open>The published catalog\<close>

text \<open>
  C1. When the catalog request settles with API status 200, a book is in the published
  book list if and only if it is in the response and \<open>parseInt\<close> of its \<open>hadiths_count\<close>
  is a number greater than zero. A book whose count parses to zero is therefore left out.
\<close>

theorem published_iff_positive_count:
  assumes "status d = 200"
  shows "b \<in> set (books (fetchBooks_settle (Json d) s)) \<longleftrightarrow>
         b \<in> set (resp_books d) \<and> (\<exists>n. parseInt (hadiths_count b) = Some n \<and> 0 < n)"
  using assms by (simp add: books_fetchBooks_settle_ok gt_zero_iff)

theorem published_iff_positive_count_witness:
  "status sampleCatalog = 200 \<and>
   sampleBook 2 ''Sahih'' ''50''
     \<in> set (books (fetchBooks_settle (Json sampleCatalog) initialState)) \<and>
   sampleBook 1 ''Empty'' ''0''
     \<notin> set (books (fetchBooks_settle (Json sampleCatalog) initialState))"
proof -
  have ok: "status sampleCatalog = 200"
    by (simp add: sampleCatalog_def)
  have "sampleBook 2 ''Sahih'' ''50''
          \<in> set (books (fetchBooks_settle (Json sampleCatalog) initialState))"
    using published_iff_positive_count [OF ok, of "sampleBook 2 ''Sahih'' ''50''" initialState]
    by (simp add: sampleCatalog_def sampleBook_def parseInt_samples)
  moreover have "sampleBook 1 ''Empty'' ''0''
          \<notin> set (books (fetchBooks_settle (Json sampleCatalog) initialState))"
    using published_iff_positive_count [OF ok, of "sampleBook 1 ''Empty'' ''0''" initialState]
    by (simp add: sampleCatalog_def sampleBook_def parseInt_samples)
  ultimately show ?thesis using ok by simp
qed

text \<open>
  C8. When the catalog request settles with API status 200, a book whose \<open>hadiths_count\<close>
  does not parse (\<open>parseInt\<close> yields NaN) is not in the published book list: NaN is not
  greater than zero. The empty string and a text without leading digits are such counts.
\<close>

theorem unparsable_count_excluded:
  assumes "status d = 200" and "parseInt (hadiths_count b) = None"
  shows "b \<notin> set (books (fetchBooks_settle (Json d) s))"
  using assms by (simp add: books_fetchBooks_settle_ok gt_zero_def)

theorem unparsable_count_excluded_witness:
  "status sampleCatalog = 200 \<and>
   parseInt (hadiths_count (sampleBook 3 ''Blank'' '''')) = None \<and>
   parseInt (hadiths_count (sampleBook 4 ''Letters'' ''abc'')) = None \<and>
   sampleBook 3 ''Blank'' '''' \<in> set (resp_books sampleCatalog) \<and>
   sampleBook 4 ''Letters'' ''abc'' \<in> set (resp_books sampleCatalog) \<and>
   sampleBook 3 ''Blank'' ''''
     \<notin> set (books (fetchBooks_settle (Json sampleCatalog) initialState)) \<and>
   sampleBook 4 ''Letters'' ''abc''
     \<notin> set (books (fetchBooks_settle (Json sampleCatalog) initialState))"
proof -
  have ok: "status sampleCatalog = 200"
    by (simp add: sampleCatalog_def)
  have blank: "parseInt (hadiths_count (sampleBook 3 ''Blank'' '''')) = None"
    by (simp add: sampleBook_def parseInt_samples)
  have letters: "parseInt (hadiths_count (sampleBook 4 ''Letters'' ''abc'')) = None"
    by (simp add: sampleBook_def parseInt_samples)
  have mem: "sampleBook 3 ''Blank'' '''' \<in> set (resp_books sampleCatalog)"
    "sampleBook 4 ''Letters'' ''abc'' \<in> set (resp_books sampleCatalog)"
    by (simp_all add: sampleCatalog_def)
  show ?thesis
    using ok blank letters mem
      unparsable_count_excluded [OF ok blank, of initialState]
      unparsable_count_excluded [OF ok letters, of initialState]
    by simp
qed

section \<open>The selection handlers\<close>

text \<open>
  C2. From every state and for every book \<open>b\<close>, \<open>handleBookSelect b\<close> makes \<open>b\<close> the
  selected book, clears the chapter selection, sets the page number to 1, clears the
  loaded hadith page and closes the mobile sidebar.
\<close>

theorem handleBookSelect_resets:
  "selectedBook (handleBookSelect b s) = Some b \<and>
   selectedChapter (handleBookSelect b s) = None \<and>
   currentPage (handleBookSelect b s) = 1 \<and>
   hadithsData (handleBookSelect b s) = None \<and>
   isSidebarOpen (handleBookSelect b s) = False"
  by (simp add: handleBookSelect_def)

theorem handleBookSelect_resets_witness:
  "selectedChapter sampleState \<noteq> None \<and> currentPage sampleState = 3 \<and>
   hadithsData sampleState \<noteq> None \<and> isSidebarOpen sampleState \<and>
   selectedBook (handleBookSelect (sampleBook 1 ''Empty'' ''0'') sampleState)
     = Some (sampleBook 1 ''Empty'' ''0'') \<and>
   selectedChapter (handleBookSelect (sampleBook 1 ''Empty'' ''0'') sampleState) = None \<and>
   currentPage (handleBookSelect (sampleBook 1 ''Empty'' ''0'') sampleState) = 1 \<and>
   hadithsData (handleBookSelect (sampleBook 1 ''Empty'' ''0'') sampleState) = None \<and>
   \<not> isSidebarOpen (handleBookSelect (sampleBook 1 ''Empty'' ''0'') sampleState)"
  using handleBookSelect_resets [of "sampleBook 1 ''Empty'' ''0''" sampleState]
  by (simp add: sampleState_def)

text \<open>
  C4. From every state and for every chapter \<open>c\<close>, \<open>handleChapterSelect c\<close> makes \<open>c\<close> the
  selected chapter, sets the page number to 1 and clears the loaded hadith page.
\<close>

theorem handleChapterSelect_resets:
  "selectedChapter (handleChapterSelect c s) = Some c \<and>
   currentPage (handleChapterSelect c s) = 1 \<and>
   hadithsData (handleChapterSelect c s) = None"
  by (simp add: handleChapterSelect_def)

theorem handleChapterSelect_resets_witness:
  "currentPage sampleState = 3 \<and> hadithsData sampleState \<noteq> None \<and>
   selectedChapter (handleChapterSelect (sampleChapter 2 ''2'') sampleState)
     = Some (sampleChapter 2 ''2'') \<and>
   currentPage (handleChapterSelect (sampleChapter 2 ''2'') sampleState) = 1 \<and>
   hadithsData (handleChapterSelect (sampleChapter 2 ''2'') sampleState) = None"
  using handleChapterSelect_resets [of "sampleChapter 2 ''2''" sampleState]
  by (simp add: sampleState_def)

text \<open>
  C9. From every state and for every chapter \<open>c\<close>, \<open>handleChapterSelect c\<close> leaves the
  selected book, the published book list, the published chapter list and the sidebar flag
  as they were. In particular it does not close the sidebar, which \<open>handleBookSelect\<close> does.
\<close>

theorem handleChapterSelect_frame:
  "selectedBook (handleChapterSelect c s) = selectedBook s \<and>
   books (handleChapterSelect c s) = books s \<and>
   chapters (handleChapterSelect c s) = chapters s \<and>
   isSidebarOpen (handleChapterSelect c s) = isSidebarOpen s"
  by (simp add: handleChapterSelect_def)

theorem handleChapterSelect_frame_witness:
  "isSidebarOpen sampleState \<and>
   isSidebarOpen (handleChapterSelect (sampleChapter 2 ''2'') sampleState) \<and>
   \<not> isSidebarOpen (handleBookSelect (sampleBook 2 ''Sahih'' ''50'') sampleState) \<and>
   selectedBook (handleChapterSelect (sampleChapter 2 ''2'') sampleState)
     = Some (sampleBook 2 ''Sahih'' ''50'') \<and>
   books (handleChapterSelect (sampleChapter 2 ''2'') sampleState)
     = [sampleBook 2 ''Sahih'' ''50''] \<and>
   chapters (handleChapterSelect (sampleChapter 2 ''2'') sampleState)
     = [sampleChapter 1 ''1'', sampleChapter 2 ''2'']"
  using handleChapterSelect_frame [of "sampleChapter 2 ''2''" sampleState]
  by (simp add: sampleState_def handleBookSelect_def)

section \<open>Changing the page\<close>

text \<open>
  C3. For every integer \<open>p\<close> and every state, \<open>handlePageChange p\<close> sets the current page
  to \<open>p\<close> when \<open>p \<ge> 1\<close> and either no page envelope is loaded or \<open>p\<close> is at most the
  \<open>last_page\<close> of the loaded envelope; otherwise it returns the state as it was, every cell
  unchanged, the error among them.
\<close>

theorem handlePageChange_guard:
  "handlePageChange p s =
     (if 1 \<le> p \<and> (hadithsData s = None \<or> (\<exists>h. hadithsData s = Some h \<and> p \<le> last_page h))
      then s\<lparr>currentPage := p\<rparr>
      else s)"
  by (cases "hadithsData s") (auto simp add: handlePageChange_def)

theorem handlePageChange_guard_witness:
  "handlePageChange 2 sampleState = sampleState\<lparr>currentPage := 2\<rparr> \<and>
   handlePageChange 5 sampleState = sampleState \<and>
   handlePageChange 0 sampleState = sampleState \<and>
   handlePageChange (- 1) initialState = initialState \<and>
   handlePageChange 7 initialState = initialState\<lparr>currentPage := 7\<rparr>"
  using handlePageChange_guard [of 2 sampleState] handlePageChange_guard [of 5 sampleState]
    handlePageChange_guard [of 0 sampleState] handlePageChange_guard [of "- 1" initialState]
    handlePageChange_guard [of 7 initialState]
  by (simp add: sampleState_def samplePage_def initialState_def)

section \<open>Settlements of the chapter and hadith loaders\<close>

text \<open>
  C5, as the code has it. For every selected book \<open>b\<close>: if the chapter request settles with
  API status 404, or with the chapter list missing from the response, then the published
  chapter list is empty, the error message is \<open>No chapters found for\<close> followed by the name
  of \<open>b\<close> and a full stop, and the chapters loading flag is false. If it settles with
  status 200 and a chapter list that is present but empty, the published chapter list is
  empty and the loading flag is false, and the settlement leaves the error message as it was.
\<close>

theorem chapters_not_found:
  "(status d = 404 \<or> resp_chapters d = None \<longrightarrow>
      chapters (fetchChapters_settle b (Json d) s) = [] \<and>
      error (fetchChapters_settle b (Json d) s)
        = Some (''No chapters found for '' @ bookName b @ ''.'') \<and>
      loadingChapters (fetchChapters_settle b (Json d) s) = False) \<and>
   (status d = 200 \<and> resp_chapters d = Some [] \<longrightarrow>
      chapters (fetchChapters_settle b (Json d) s) = [] \<and>
      error (fetchChapters_settle b (Json d) s) = error s \<and>
      loadingChapters (fetchChapters_settle b (Json d) s) = False)"
  by (auto simp add: fetchChapters_settle_def fetchChapters_try_def await_json_def
      split: option.splits bool.splits)

theorem chapters_not_found_witness:
  "status sampleNotFound = 404 \<and>
   chapters (fetchChapters_settle (sampleBook 2 ''Sahih'' ''50'') (Json sampleNotFound)
     (fetchChapters_effect sampleState)) = [] \<and>
   error (fetchChapters_settle (sampleBook 2 ''Sahih'' ''50'') (Json sampleNotFound)
     (fetchChapters_effect sampleState)) = Some ''No chapters found for Sahih.'' \<and>
   \<not> loadingChapters (fetchChapters_settle (sampleBook 2 ''Sahih'' ''50'') (Json sampleNotFound)
     (fetchChapters_effect sampleState)) \<and>
   status sampleNoChapters = 200 \<and> resp_chapters sampleNoChapters = Some [] \<and>
   \<not> loadingChapters (fetchChapters_settle (sampleBook 2 ''Sahih'' ''50'') (Json sampleNoChapters)
     (fetchChapters_effect sampleState))"
  using
    chapters_not_found [of sampleNotFound "sampleBook 2 ''Sahih'' ''50''"
      "fetchChapters_effect sampleState"]
    chapters_not_found [of sampleNoChapters "sampleBook 2 ''Sahih'' ''50''"
      "fetchChapters_effect sampleState"]
  by (simp add: sampleNotFound_def sampleNoChapters_def sampleBook_def)

text \<open>
  C5 as stated fails for an empty chapter list. The book is selected from the initial state,
  its chapter request starts and settles with status 200 and the list \<open>[]\<close>: the published
  chapter list is empty, and no error is set, so no message mentions the name of the book.
\<close>

theorem empty_chapter_list_sets_no_error:
  "status sampleNoChapters = 200 \<and> resp_chapters sampleNoChapters = Some [] \<and>
   chapters (fetchChapters_settle (sampleBook 2 ''Sahih'' ''50'') (Json sampleNoChapters)
     (fetchChapters_effect (handleBookSelect (sampleBook 2 ''Sahih'' ''50'') initialState))) = [] \<and>
   error (fetchChapters_settle (sampleBook 2 ''Sahih'' ''50'') (Json sampleNoChapters)
     (fetchChapters_effect (handleBookSelect (sampleBook 2 ''Sahih'' ''50'') initialState))) = None"
  by (simp add: sampleNoChapters_def fetchChapters_settle_def fetchChapters_try_def
      await_json_def fetchChapters_effect_def fetchChapters_start_def handleBookSelect_def
      initialState_def)

text \<open>
  C6. When a hadith page request settles with API status 200, the \<open>hadiths\<close> envelope
  present and its \<open>data\<close> field not an array, the loader publishes that envelope with
  \<open>data\<close> replaced by the empty sequence, and sets the advisory error
  \<open>No hadiths found for this chapter or page.\<close>
\<close>

theorem malformed_page_published_empty:
  assumes "status d = 200" and "resp_hadiths d = Some h" and "data h = NonArrayData"
  shows "hadithsData (fetchHadiths_settle b c (Json d) s) = Some (h\<lparr>data := ArrayData []\<rparr>) \<and>
         error (fetchHadiths_settle b c (Json d) s)
           = Some ''No hadiths found for this chapter or page.''"
  using assms by (simp add: fetchHadiths_settle_def fetchHadiths_try_def await_json_def)

theorem malformed_page_published_empty_witness:
  "status (sampleHadithsResponse 1 3 NonArrayData) = 200 \<and>
   resp_hadiths (sampleHadithsResponse 1 3 NonArrayData) = Some (samplePage 1 3 NonArrayData) \<and>
   data (samplePage 1 3 NonArrayData) = NonArrayData \<and>
   hadithsData (fetchHadiths_settle (sampleBook 2 ''Sahih'' ''50'') (sampleChapter 1 ''1'')
       (Json (sampleHadithsResponse 1 3 NonArrayData)) initialState)
     = Some (samplePage 1 3 (ArrayData [])) \<and>
   error (fetchHadiths_settle (sampleBook 2 ''Sahih'' ''50'') (sampleChapter 1 ''1'')
       (Json (sampleHadithsResponse 1 3 NonArrayData)) initialState)
     = Some ''No hadiths found for this chapter or page.''"
proof -
  have ok: "status (sampleHadithsResponse 1 3 NonArrayData) = 200"
    and env: "resp_hadiths (sampleHadithsResponse 1 3 NonArrayData)
                = Some (samplePage 1 3 NonArrayData)"
    by (simp_all add: sampleHadithsResponse_def)
  have bad: "data (samplePage 1 3 NonArrayData) = NonArrayData"
    by (simp add: samplePage_def)
  have upd: "(samplePage 1 3 NonArrayData)\<lparr>data := ArrayData []\<rparr> = samplePage 1 3 (ArrayData [])"
    by (simp add: samplePage_def)
  show ?thesis
    using ok env bad
      malformed_page_published_empty [OF ok env bad, of "sampleBook 2 ''Sahih'' ''50''"
        "sampleChapter 1 ''1''" initialState]
    by (simp add: upd)
qed

section \<open>The page number over all runs\<close>

text \<open>
  C7, as the code has it. After every run of events from the initial state the current page
  number is at least 1. The bound by \<open>last_page\<close> is kept by \<open>handlePageChange\<close> alone,
  against the envelope loaded when it is called: a page above that envelope's \<open>last_page\<close>
  is refused and the state stays as it was. A settlement of the hadith loader, whatever it
  publishes, leaves the current page number as it was.
\<close>

theorem page_positive_and_guarded:
  "1 \<le> currentPage (run evs initialState) \<and>
   (\<forall>p h. hadithsData (run evs initialState) = Some h \<and> last_page h < p \<longrightarrow>
      handlePageChange p (run evs initialState) = run evs initialState) \<and>
   (\<forall>b c r. currentPage (fetchHadiths_settle b c r (run evs initialState))
      = currentPage (run evs initialState))"
  by (simp add: currentPage_run initialState_def handlePageChange_above_last
      currentPage_fetchHadiths_settle)

theorem page_positive_and_guarded_witness:
  "hadithsData (run staleRun initialState) = Some (samplePage 1 1 (ArrayData [sampleHadith])) \<and>
   last_page (samplePage 1 1 (ArrayData [sampleHadith])) < 3 \<and>
   1 \<le> currentPage (run staleRun initialState) \<and>
   handlePageChange 3 (run staleRun initialState) = run staleRun initialState"
  using page_positive_and_guarded [of staleRun] staleRun_result
  by (simp add: samplePage_def)

text \<open>
  C7 as stated fails in the overtaken run: it consists of handler calls and settlements of
  the hadith loader only, and it ends on page 2 with an envelope loaded whose \<open>last_page\<close>
  is 1.
\<close>

theorem page_exceeds_last_page:
  "hadithsData (run staleRun initialState) = Some (samplePage 1 1 (ArrayData [sampleHadith])) \<and>
   currentPage (run staleRun initialState) = 2 \<and>
   last_page (samplePage 1 1 (ArrayData [sampleHadith])) = 1 \<and>
   \<not> currentPage (run staleRun initialState)
       \<le> last_page (samplePage 1 1 (ArrayData [sampleHadith]))"
  by (simp add: staleRun_result samplePage_def)

section \<open>The error message at the start of a request\<close>

text \<open>
  C10. Each loader sets the error message to null when it starts a request, before the
  request settles: the book loader always, the chapter loader whenever a book is selected,
  the hadith loader whenever a book and a chapter are selected. Without these selections
  no request is sent.
\<close>

theorem loaders_clear_error_at_start:
  "error (fetchBooks_start s) = None \<and>
   error (fetchChapters_start s) = None \<and>
   (selectedBook s \<noteq> None \<longrightarrow> error (fetchChapters_effect s) = None) \<and>
   (selectedBook s \<noteq> None \<and> selectedChapter s \<noteq> None \<longrightarrow>
      error (fetchHadiths_start s) = None)"
  by (auto simp add: fetchBooks_start_def fetchChapters_start_def fetchChapters_effect_def
      fetchHadiths_start_def)

theorem loaders_clear_error_at_start_witness:
  "error sampleState = Some ''No hadiths found for this chapter or page.'' \<and>
   selectedBook sampleState \<noteq> None \<and> selectedChapter sampleState \<noteq> None \<and>
   error (fetchBooks_start sampleState) = None \<and>
   error (fetchChapters_effect sampleState) = None \<and>
   error (fetchHadiths_start sampleState) = None"
  using loaders_clear_error_at_start [of sampleState]
  by (simp add: sampleState_def)

end
